theory Spec2Isabelle
  imports Complex_Main "HOL-Library.Char_ord" "HOL-Library.List_Lexorder"
begin

section \<open>Tracki: tax computation, offline sale queue and synchronisation\<close>

text \<open>
  A shallow embedding of the offline-first sale capture of Tracki:
  \<^item> \<open>utils/taxCalculator.js\<close> (\<open>calculateTax\<close>),
  \<^item> \<open>services/offlineService.js\<close> (\<open>initDB\<close>, \<open>isOnline\<close>, \<open>storeSaleOffline\<close>,
    \<open>getPendingSales\<close>, \<open>markSaleAsSynced\<close>, \<open>deleteSyncedSales\<close>, \<open>syncPendingSales\<close>),
  \<^item> \<open>services/firestoreService.js\<close> (\<open>getBusiness\<close>, \<open>addSale\<close>),
  \<^item> \<open>pages/RecordSale.jsx\<close> (\<open>handleRecordSale\<close> and the synchronisation effect).
\<close>

subsection \<open>JavaScript numbers\<close>

text \<open>
  A number is an IEEE 754 double: a finite value, modelled by the rational it denotes
  (\<open>-0\<close> and \<open>0\<close> are not told apart; no operation used here does), an infinity or NaN.
  Every arithmetic result is rounded to the nearest double, a tie to the even mantissa:
  \<open>rnd\<close> rounds a rational to 53 significant bits (to a multiple of \<open>2^-1074\<close> in the
  subnormal range), and \<open>fl\<close> turns what leaves the range into an infinity.
\<close>

datatype number = Fin rat | PInf | NInf | NaN

text \<open>The number of binary digits of a positive integer.\<close>

fun bits :: "int \<Rightarrow> nat" where
  "bits a = (if a \<le> 0 then 0 else Suc (bits (a div 2)))"

declare bits.simps [simp del]

text \<open>The binary exponent of a positive rational: \<open>2^e \<le> x < 2^(e+1)\<close>.\<close>

definition expo :: "rat \<Rightarrow> int" where
  "expo x =
     (case quotient_of x of
        (a, b) \<Rightarrow>
          (let d = int (bits a) - int (bits b) in if 2 powi d \<le> x then d else d - 1))"

text \<open>Rounding to the nearest integer, a tie to the even one.\<close>

definition rne :: "rat \<Rightarrow> int" where
  "rne y =
     (let f = \<lfloor>y\<rfloor>; d = y - of_int f
      in if d < 1 / 2 then f else if 1 / 2 < d then f + 1 else if even f then f else f + 1)"

definition quantum :: "rat \<Rightarrow> rat" where
  "quantum x = 2 powi (max (expo x) (- 1022) - 52)"

definition rnd :: "rat \<Rightarrow> rat" where
  "rnd x =
     (if x = 0 then 0
      else sgn x * (of_int (rne (\<bar>x\<bar> / quantum \<bar>x\<bar>)) * quantum \<bar>x\<bar>))"

definition huge :: rat where
  "huge = 2 ^ 1024"

definition fl :: "rat \<Rightarrow> number" where
  "fl x =
     (let y = rnd x
      in if huge \<le> y then PInf else if y \<le> - huge then NInf else Fin y)"

fun nneg :: "number \<Rightarrow> number" where
  "nneg (Fin x) = Fin (- x)"
| "nneg PInf = NInf"
| "nneg NInf = PInf"
| "nneg NaN = NaN"

text \<open>The operators \<open>*\<close> and \<open>+\<close> on numbers.\<close>

fun nmul :: "number \<Rightarrow> number \<Rightarrow> number" where
  "nmul (Fin x) (Fin y) = fl (x * y)"
| "nmul NaN b = NaN"
| "nmul a NaN = NaN"
| "nmul (Fin x) PInf = (if x = 0 then NaN else if 0 < x then PInf else NInf)"
| "nmul (Fin x) NInf = (if x = 0 then NaN else if 0 < x then NInf else PInf)"
| "nmul PInf (Fin y) = (if y = 0 then NaN else if 0 < y then PInf else NInf)"
| "nmul NInf (Fin y) = (if y = 0 then NaN else if 0 < y then NInf else PInf)"
| "nmul PInf PInf = PInf"
| "nmul PInf NInf = NInf"
| "nmul NInf PInf = NInf"
| "nmul NInf NInf = PInf"

fun nadd :: "number \<Rightarrow> number \<Rightarrow> number" where
  "nadd (Fin x) (Fin y) = fl (x + y)"
| "nadd NaN b = NaN"
| "nadd a NaN = NaN"
| "nadd PInf NInf = NaN"
| "nadd NInf PInf = NaN"
| "nadd PInf b = PInf"
| "nadd a PInf = PInf"
| "nadd NInf b = NInf"
| "nadd a NInf = NInf"

text \<open>The comparison \<open><=\<close>: false when an operand is NaN.\<close>

fun num_le :: "number \<Rightarrow> number \<Rightarrow> bool" where
  "num_le (Fin x) (Fin y) = (x \<le> y)"
| "num_le NaN b = False"
| "num_le a NaN = False"
| "num_le NInf b = True"
| "num_le a PInf = True"
| "num_le a NInf = False"
| "num_le PInf b = False"

definition isNaN :: "number \<Rightarrow> bool" where
  "isNaN a = (a = NaN)"

text \<open>Truthiness of a number: \<open>0\<close> and NaN are falsy.\<close>

definition truthy_number :: "number \<Rightarrow> bool" where
  "truthy_number a = (a \<noteq> Fin 0 \<and> a \<noteq> NaN)"

subsection \<open>Tax engine (\<open>utils/taxCalculator.js\<close>)\<close>

text \<open>
  \<open>parseFloat(x.toFixed(2))\<close>. For a finite \<open>x\<close> below \<open>10^21\<close> in magnitude,
  \<open>Number.prototype.toFixed\<close> works on the exact value of the double: it picks the integer
  \<open>n\<close> for which \<open>n / 100 - x\<close> is closest to zero, the larger \<open>n\<close> on a tie, after moving
  the sign of a negative \<open>x\<close> in front; \<open>parseFloat\<close> reads the decimal back as the nearest
  double. From \<open>10^21\<close> on, and for an infinity or NaN, \<open>toFixed\<close> prints the number
  itself and \<open>parseFloat\<close> reads the same number back.
\<close>

definition toFixed2 :: "number \<Rightarrow> number" where
  "toFixed2 a =
     (case a of
        Fin x \<Rightarrow>
          if 10 ^ 21 \<le> \<bar>x\<bar> then Fin x
          else fl (if x < 0 then - (of_int \<lfloor>(- x) * 100 + 1 / 2\<rfloor> / 100)
                   else of_int \<lfloor>x * 100 + 1 / 2\<rfloor> / 100)
      | PInf \<Rightarrow> PInf
      | NInf \<Rightarrow> NInf
      | NaN \<Rightarrow> NaN)"

record tax =
  tax_subtotal :: number
  tax_vatAmount :: number
  tax_total :: number

text \<open>The literal \<open>0.18\<close> of the default parameter: the double nearest to \<open>18/100\<close>.\<close>

definition default_vatRate :: number where
  "default_vatRate = fl (18 / 100)"

text \<open>The body of \<open>calculateTax\<close> for a subtotal that is a number.\<close>

definition calculateTax_num :: "number \<Rightarrow> number \<Rightarrow> tax" where
  "calculateTax_num subtotal vatRate =
     (let vatAmount = nmul subtotal vatRate;
          total = nadd subtotal vatAmount
      in \<lparr>tax_subtotal = toFixed2 subtotal,
          tax_vatAmount = toFixed2 vatAmount,
          tax_total = toFixed2 total\<rparr>)"

text \<open>
  The spec's \<open>round2\<close>, from its words: the nearest multiple of \<open>0.01\<close>, a tie resolved
  away from zero.
\<close>

definition round2 :: "rat \<Rightarrow> rat" where
  "round2 x = sgn x * (of_int \<lfloor>\<bar>x\<bar> * 100 + 1 / 2\<rfloor> / 100)"

subsection \<open>Results of calls\<close>

text \<open>
  A call returns a value or throws, a promise resolves with a value (\<open>Inr\<close>) or rejects
  with a reason (\<open>Inl\<close>). The reason is an \<open>Error\<close>, a \<open>DataError\<close> of IndexedDB or a
  \<open>TypeError\<close>, each with its message, or \<open>undefined\<close> (\<open>rej()\<close> in
  \<open>deleteSyncedSales\<close>). An operation on a state returns the result together with the
  state it leaves behind, also when it rejects.
\<close>

datatype error = Error string | DataError string | TypeError string | Undefined

text \<open>
  \<open>calculateTax(subtotal, vatRate = 0.18)\<close>. The argument \<open>subtotal\<close> is a number or
  another value (\<open>undefined\<close>, a string, an object without a method \<open>toFixed\<close>): on such
  a value the call \<open>subtotal.toFixed(2)\<close> throws a TypeError. The rate is a number, or is
  left out. The function has no other check and no \<open>throw\<close> of its own.
\<close>

datatype arg = Number number | Other

fun calculateTax :: "arg \<Rightarrow> number option \<Rightarrow> error + tax" where
  "calculateTax Other rate = Inl (TypeError ''subtotal.toFixed is not a function'')"
| "calculateTax (Number subtotal) rate =
     Inr (calculateTax_num subtotal (case rate of None \<Rightarrow> default_vatRate | Some r \<Rightarrow> r))"

subsection \<open>Data (\<open>pages/RecordSale.jsx\<close>, \<open>services/offlineService.js\<close>)\<close>

text \<open>
  A text typed by the user is a sequence of UTF-16 code units. Identifiers (of a
  business, a user, a sale) are ASCII and kept as \<open>string\<close>.
\<close>

type_synonym js_string = "int list"

definition lit :: "string \<Rightarrow> js_string" where
  "lit s = map of_char s"

record item =
  productId :: string
  productName :: js_string
  quantity :: number
  pricePerItem :: number

text \<open>The \<open>saleData\<close> object built by \<open>handleRecordSale\<close>.\<close>

record sale_data =
  businessId :: string
  recordedByUserId :: string
  items :: "item list"
  paymentMethod :: js_string
  subtotal :: number
  vatAmount :: number
  total :: number

text \<open>
  The record of the object store \<open>pendingSales\<close>: \<open>{...saleData, id, synced, createdAt,
  storedAt}\<close>. The field \<open>id\<close> is \<open>sale_id\<close> here; \<open>createdAt\<close> is the ISO rendering of
  the client clock, modelled by the clock value.
\<close>

record pending_sale = sale_data +
  sale_id :: string
  synced :: bool
  createdAt :: nat
  storedAt :: nat

subsection \<open>The browser: connectivity, IndexedDB, clock\<close>

text \<open>
  The object store has key path \<open>id\<close>: it holds at most one record per key and lists its
  records in key order, so it is a list of records kept sorted by \<open>sale_id\<close>.

  The index \<open>synced\<close> has key path \<open>synced\<close>, and the service writes \<open>false\<close> or \<open>true\<close>
  there. A boolean is not a key of IndexedDB (a key is a number, a date, a string, a
  binary or an array), and a record whose key path does not give a key has no entry in
  the index: the index \<open>synced\<close> is empty whatever the store holds. The query
  \<open>index.getAll(false)\<close> is not a key either: the standard makes the call throw a
  \<open>DataError\<close>. \<open>strict_keys\<close> says whether the engine makes that check; an engine that
  does not answers from the empty index.

  A request of IndexedDB may fail; which requests fail is an input of the model, the set
  \<open>faults\<close>. A failed request whose error event is not cancelled aborts its transaction,
  so a failed write leaves the store as it was.
\<close>

datatype fault =
    OpenDB
  | IndexGetAll bool
  | StoreGet string
  | StorePut string
  | StoreDelete string
  | StoreAdd

record local =
  onLine :: bool
  db :: bool
  pendingSales :: "pending_sale list"
  strict_keys :: bool
  faults :: "fault set"
  clock :: nat
  random :: string

definition store_add :: "fault set \<Rightarrow> pending_sale \<Rightarrow> pending_sale list \<Rightarrow> pending_sale list" where
  "store_add fs r xs =
     (if StoreAdd \<in> fs \<or> sale_id r \<in> sale_id ` set xs then xs
      else insort_key sale_id r xs)"

definition store_get :: "string \<Rightarrow> pending_sale list \<Rightarrow> pending_sale option" where
  "store_get k xs = find (\<lambda>r. sale_id r = k) xs"

definition store_put :: "pending_sale \<Rightarrow> pending_sale list \<Rightarrow> pending_sale list" where
  "store_put r xs =
     (if sale_id r \<in> sale_id ` set xs
      then map (\<lambda>x. if sale_id x = sale_id r then r else x) xs
      else insort_key sale_id r xs)"

definition store_delete :: "string \<Rightarrow> pending_sale list \<Rightarrow> pending_sale list" where
  "store_delete k xs = filter (\<lambda>r. sale_id r \<noteq> k) xs"

text \<open>
  \<open>index.getAll(v)\<close> on the index \<open>synced\<close>, for a boolean \<open>v\<close>: the call throws, or the
  request fails, or it succeeds with the entries of the index, of which there are none.
\<close>

datatype 'a request = Throws error | Fails | Succeeds 'a

definition index_getAll :: "local \<Rightarrow> bool \<Rightarrow> pending_sale list request" where
  "index_getAll l v =
     (if strict_keys l then Throws (DataError ''The parameter is not a valid key.'')
      else if IndexGetAll v \<in> faults l then Fails
      else Succeeds [])"

subsection \<open>Offline service (\<open>services/offlineService.js\<close>)\<close>

text \<open>\<open>initDB\<close>: the module variable \<open>db\<close> caches the opened database.\<close>

definition initDB :: "local \<Rightarrow> (error + unit) \<times> local" where
  "initDB l =
     (if db l then (Inr (), l)
      else if OpenDB \<in> faults l then (Inl (Error ''Failed to open IndexedDB''), l)
      else (Inr (), l\<lparr>db := True\<rparr>))"

definition isOnline :: "local \<Rightarrow> bool" where
  "isOnline l = onLine l"

text \<open>Decimal rendering of \<open>Date.now()\<close> inside the template string of the identifier.\<close>

fun decimal :: "nat \<Rightarrow> string" where
  "decimal n =
     (if n < 10 then [''0123456789'' ! n]
      else decimal (n div 10) @ [''0123456789'' ! (n mod 10)])"

declare decimal.simps [simp del]

text \<open>
  \<open>storeSaleOffline\<close>. \<open>await store.add(saleRecord)\<close> awaits the request object, which is
  not a promise, so the function returns the identifier without waiting for the request:
  a request that fails later (a fault of the store, or a key that is already there) is not
  seen, and the record is not stored. The three readings of the clock in one call
  (\<open>Date.now()\<close> twice and \<open>new Date()\<close>) are taken to give the same value.
\<close>

definition storeSaleOffline :: "sale_data \<Rightarrow> local \<Rightarrow> (error + string) \<times> local" where
  "storeSaleOffline saleData l =
     (case initDB l of
        (Inl e, l') \<Rightarrow> (Inl e, l')
      | (Inr _, l') \<Rightarrow>
          (let saleRecord =
                 \<lparr>businessId = businessId saleData,
                  recordedByUserId = recordedByUserId saleData,
                  items = items saleData,
                  paymentMethod = paymentMethod saleData,
                  subtotal = subtotal saleData,
                  vatAmount = vatAmount saleData,
                  total = total saleData,
                  sale_id = ''offline-'' @ decimal (clock l') @ ''-'' @ random l',
                  synced = False,
                  createdAt = clock l',
                  storedAt = clock l'\<rparr>
           in (Inr (sale_id saleRecord),
               l'\<lparr>pendingSales := store_add (faults l') saleRecord (pendingSales l')\<rparr>)))"

text \<open>\<open>if (businessId)\<close>: \<open>null\<close> and the empty string are falsy.\<close>

definition truthy :: "string option \<Rightarrow> bool" where
  "truthy b = (case b of None \<Rightarrow> False | Some s \<Rightarrow> s \<noteq> [])"

text \<open>
  \<open>getPendingSales\<close>: an exception of \<open>index.getAll(false)\<close> is caught, logged and thrown
  again; a failed request rejects with the function's own error.
\<close>

definition getPendingSales :: "string option \<Rightarrow> local \<Rightarrow> (error + pending_sale list) \<times> local" where
  "getPendingSales bid l =
     (case initDB l of
        (Inl e, l') \<Rightarrow> (Inl e, l')
      | (Inr _, l') \<Rightarrow>
          (case index_getAll l' False of
             Throws e \<Rightarrow> (Inl e, l')
           | Fails \<Rightarrow> (Inl (Error ''Failed to get pending sales''), l')
           | Succeeds sales \<Rightarrow>
               (Inr (if truthy bid
                     then filter (\<lambda>sale. Some (businessId sale) = bid) sales
                     else sales), l')))"

definition markSaleAsSynced :: "string \<Rightarrow> local \<Rightarrow> (error + unit) \<times> local" where
  "markSaleAsSynced saleId l =
     (case initDB l of
        (Inl e, l') \<Rightarrow> (Inl e, l')
      | (Inr _, l') \<Rightarrow>
          if StoreGet saleId \<in> faults l' then (Inl (Error ''Failed to get sale''), l')
          else (case store_get saleId (pendingSales l') of
                  Some sale \<Rightarrow>
                    if StorePut saleId \<in> faults l'
                    then (Inl (Error ''Failed to mark sale as synced''), l')
                    else (Inr (),
                          l'\<lparr>pendingSales := store_put (sale\<lparr>synced := True\<rparr>) (pendingSales l')\<rparr>)
                | None \<Rightarrow> (Inr (), l')))"

text \<open>
  \<open>deleteSyncedSales\<close>: one delete request per record that \<open>index.getAll(true)\<close> yields,
  all in one transaction; \<open>Promise.all\<close> rejects with the reason of \<open>rej()\<close> when one of
  them fails.
\<close>

definition deleteSyncedSales :: "local \<Rightarrow> (error + unit) \<times> local" where
  "deleteSyncedSales l =
     (case initDB l of
        (Inl e, l') \<Rightarrow> (Inl e, l')
      | (Inr _, l') \<Rightarrow>
          (case index_getAll l' True of
             Throws e \<Rightarrow> (Inl e, l')
           | Fails \<Rightarrow> (Inl (Error ''Failed to get synced sales''), l')
           | Succeeds syncedSales \<Rightarrow>
               if list_ex (\<lambda>sale. StoreDelete (sale_id sale) \<in> faults l') syncedSales
               then (Inl Undefined, l')
               else (Inr (),
                     l'\<lparr>pendingSales :=
                          fold (\<lambda>sale. store_delete (sale_id sale)) syncedSales
                            (pendingSales l')\<rparr>)))"

text \<open>The object \<open>firestoreSale\<close> built in the loop of \<open>syncPendingSales\<close>.\<close>

definition firestoreSale :: "pending_sale \<Rightarrow> sale_data" where
  "firestoreSale sale =
     \<lparr>businessId = businessId sale,
      recordedByUserId = recordedByUserId sale,
      items = items sale,
      paymentMethod = paymentMethod sale,
      subtotal = subtotal sale,
      vatAmount = vatAmount sale,
      total = total sale\<rparr>"

record tally =
  tally_synced :: nat
  tally_failed :: nat

text \<open>
  The \<open>for\<close> loop of \<open>syncPendingSales\<close>. The callback \<open>addSaleFunction\<close> works on the
  state \<open>'r\<close> of the remote store; the inner \<open>try\<close> covers the callback and
  \<open>markSaleAsSynced\<close>, and its \<open>catch\<close> counts a failure and goes on.
\<close>

fun sync_loop ::
  "(sale_data \<Rightarrow> 'r \<Rightarrow> (error + 'a) \<times> 'r) \<Rightarrow> pending_sale list \<Rightarrow> nat \<Rightarrow> nat \<Rightarrow>
     local \<times> 'r \<Rightarrow> (nat \<times> nat) \<times> (local \<times> 'r)" where
  "sync_loop addSaleFunction [] n_synced n_failed (l, r) = ((n_synced, n_failed), (l, r))"
| "sync_loop addSaleFunction (sale # rest) n_synced n_failed (l, r) =
     (case addSaleFunction (firestoreSale sale) r of
        (Inl e, r') \<Rightarrow> sync_loop addSaleFunction rest n_synced (n_failed + 1) (l, r')
      | (Inr _, r') \<Rightarrow>
          (case markSaleAsSynced (sale_id sale) l of
             (Inl e, l') \<Rightarrow> sync_loop addSaleFunction rest n_synced (n_failed + 1) (l', r')
           | (Inr _, l') \<Rightarrow> sync_loop addSaleFunction rest (n_synced + 1) n_failed (l', r')))"

text \<open>The outer \<open>try\<close> block of \<open>syncPendingSales\<close>.\<close>

fun sync_try ::
  "(sale_data \<Rightarrow> 'r \<Rightarrow> (error + 'a) \<times> 'r) \<Rightarrow> string option \<Rightarrow> local \<times> 'r \<Rightarrow>
     (error + tally) \<times> (local \<times> 'r)" where
  "sync_try addSaleFunction bid (l, r) =
     (case getPendingSales bid l of
        (Inl e, l1) \<Rightarrow> (Inl e, (l1, r))
      | (Inr pending, l1) \<Rightarrow>
          (case sync_loop addSaleFunction pending 0 0 (l1, r) of
             ((n_synced, n_failed), (l2, r2)) \<Rightarrow>
               (case deleteSyncedSales l2 of
                  (Inl e, l3) \<Rightarrow> (Inl e, (l3, r2))
                | (Inr _, l3) \<Rightarrow>
                    (Inr \<lparr>tally_synced = n_synced, tally_failed = n_failed\<rparr>, (l3, r2)))))"

fun syncPendingSales ::
  "(sale_data \<Rightarrow> 'r \<Rightarrow> (error + 'a) \<times> 'r) \<Rightarrow> string option \<Rightarrow> local \<times> 'r \<Rightarrow>
     (error + tally) \<times> (local \<times> 'r)" where
  "syncPendingSales addSaleFunction bid (l, r) =
     (if \<not> isOnline l then (Inr \<lparr>tally_synced = 0, tally_failed = 0\<rparr>, (l, r))
      else (case sync_try addSaleFunction bid (l, r) of
              (Inl e, s) \<Rightarrow> (Inr \<lparr>tally_synced = 0, tally_failed = 0\<rparr>, s)
            | (Inr t, s) \<Rightarrow> (Inr t, s)))"

definition getPendingSalesCount :: "string option \<Rightarrow> local \<Rightarrow> nat \<times> local" where
  "getPendingSalesCount bid l =
     (case getPendingSales bid l of
        (Inl e, l') \<Rightarrow> (0, l')
      | (Inr pending, l') \<Rightarrow> (length pending, l'))"

subsection \<open>Firestore service (\<open>services/firestoreService.js\<close>)\<close>

text \<open>
  The collections \<open>businesses\<close> (document identifier and data) and \<open>sales\<close>. Of a business
  only \<open>rraVatRate\<close> is read here; the field may be missing. A call of the Firestore client
  may reject: \<open>fs_faults\<close> says which.
\<close>

record business =
  rraVatRate :: "number option"

record sale_doc =
  doc_businessId :: string
  doc_recordedByUserId :: string
  doc_createdAt :: nat
  doc_items :: "item list"
  doc_paymentMethod :: js_string
  doc_subtotal :: number
  doc_vatAmount :: number
  doc_total :: number

datatype fs_fault = GetDoc | AddDoc

record firestore =
  businesses :: "(string \<times> business) list"
  sales :: "sale_doc list"
  fs_faults :: "fs_fault set"
  fs_clock :: nat

definition getBusiness :: "string \<Rightarrow> firestore \<Rightarrow> (error + business option) \<times> firestore" where
  "getBusiness bid fs =
     (if GetDoc \<in> fs_faults fs then (Inl (Error ''getDoc''), fs)
      else (Inr (map_of (businesses fs) bid), fs))"

text \<open>\<open>business.rraVatRate || 0.18\<close>: a missing rate, the rate \<open>0\<close> and NaN are falsy.\<close>

definition rate_or_default :: "business \<Rightarrow> number" where
  "rate_or_default b =
     (case rraVatRate b of
        None \<Rightarrow> default_vatRate
      | Some rate \<Rightarrow> if truthy_number rate then rate else default_vatRate)"

text \<open>
  \<open>addSale\<close> reads the business, recomputes the subtotal from the items (\<open>reduce\<close> from
  \<open>0\<close>) and the tax from the business's rate, and writes those; the \<open>subtotal\<close>,
  \<open>vatAmount\<close> and \<open>total\<close> of \<open>saleData\<close> are not read. The written \<open>subtotal\<close> is the
  sum itself, the other two are the rounded amounts of \<open>calculateTax\<close>.
\<close>

definition addSale :: "sale_data \<Rightarrow> firestore \<Rightarrow> (error + unit) \<times> firestore" where
  "addSale saleData fs =
     (case getBusiness (businessId saleData) fs of
        (Inl e, fs') \<Rightarrow> (Inl e, fs')
      | (Inr None, fs') \<Rightarrow> (Inl (Error ''Business not found''), fs')
      | (Inr (Some b), fs') \<Rightarrow>
          (let vatRate = rate_or_default b;
               sub = foldl (\<lambda>sum item. nadd sum (nmul (pricePerItem item) (quantity item)))
                       (Fin 0) (items saleData)
           in (case calculateTax (Number sub) (Some vatRate) of
                 Inl e \<Rightarrow> (Inl e, fs')
               | Inr t \<Rightarrow>
                   if AddDoc \<in> fs_faults fs' then (Inl (Error ''addDoc''), fs')
                   else (Inr (),
                         fs'\<lparr>sales := sales fs' @
                            [\<lparr>doc_businessId = businessId saleData,
                              doc_recordedByUserId = recordedByUserId saleData,
                              doc_createdAt = fs_clock fs',
                              doc_items = items saleData,
                              doc_paymentMethod = paymentMethod saleData,
                              doc_subtotal = sub,
                              doc_vatAmount = tax_vatAmount t,
                              doc_total = tax_total t\<rparr>]\<rparr>))))"

subsection \<open>Recording a sale (\<open>pages/RecordSale.jsx\<close>)\<close>


text \<open>
  The form of the page. \<open>form_price\<close> is the text of the price input,
  \<open>form_priceValue\<close> and \<open>form_quantityValue\<close> are the results of \<open>parseFloat\<close> and
  \<open>parseInt\<close> on the inputs (a number, possibly NaN); \<open>form_vatRate\<close> is the rate the page
  loaded from the business when it was opened.
\<close>

record form =
  form_productName :: js_string
  form_price :: js_string
  form_priceValue :: number
  form_quantityValue :: number
  form_paymentMethod :: js_string
  form_customPaymentMethod :: js_string
  form_vatRate :: number
  form_selectedBusinessId :: "string option"
  form_uid :: string

datatype toast = Toast_success string | Toast_error string | Uncaught_TypeError

text \<open>
  \<open>String.prototype.trim\<close> removes white space and line terminators at both ends: the
  code units U+0009 to U+000D, U+0020, U+00A0, U+1680, U+2000 to U+200A, U+2028, U+2029,
  U+202F, U+205F, U+3000 and U+FEFF.
\<close>

definition white_space :: "int \<Rightarrow> bool" where
  "white_space c =
     ((0x09 \<le> c \<and> c \<le> 0x0D) \<or> c = 0x20 \<or> c = 0xA0 \<or> c = 0x1680 \<or>
      (0x2000 \<le> c \<and> c \<le> 0x200A) \<or> c = 0x2028 \<or> c = 0x2029 \<or> c = 0x202F \<or>
      c = 0x205F \<or> c = 0x3000 \<or> c = 0xFEFF)"

definition trim :: "js_string \<Rightarrow> js_string" where
  "trim s = rev (dropWhile white_space (rev (dropWhile white_space s)))"

text \<open>\<open>toast.error(error.message || 'Failed to record sale')\<close>.\<close>

definition error_toast :: "error \<Rightarrow> toast" where
  "error_toast e =
     (case e of
        Error m \<Rightarrow> Toast_error (if m = [] then ''Failed to record sale'' else m)
      | DataError m \<Rightarrow> Toast_error (if m = [] then ''Failed to record sale'' else m)
      | TypeError m \<Rightarrow> Toast_error (if m = [] then ''Failed to record sale'' else m)
      | Undefined \<Rightarrow> Uncaught_TypeError)"

text \<open>The object \<open>saleData\<close> that \<open>handleRecordSale\<close> builds once the form has passed its checks.\<close>

definition saleData_of :: "form \<Rightarrow> string \<Rightarrow> number \<Rightarrow> number \<Rightarrow> local \<Rightarrow> error + sale_data" where
  "saleData_of f selectedBusinessId priceValue quantityValue l =
     (let finalPaymentMethod =
            (if form_paymentMethod f = lit ''Custom''
             then trim (form_customPaymentMethod f) else form_paymentMethod f);
          sub = nmul priceValue quantityValue
      in (case calculateTax (Number sub) (Some (form_vatRate f)) of
            Inl e \<Rightarrow> Inl e
          | Inr t \<Rightarrow>
              Inr \<lparr>businessId = selectedBusinessId,
                   recordedByUserId = form_uid f,
                   items = [\<lparr>productId = ''manual-'' @ decimal (clock l),
                             productName = trim (form_productName f),
                             quantity = quantityValue,
                             pricePerItem = priceValue\<rparr>],
                   paymentMethod = finalPaymentMethod,
                   subtotal = sub,
                   vatAmount = tax_vatAmount t,
                   total = tax_total t\<rparr>))"

text \<open>
  \<open>handleRecordSale\<close>. The first component of the result is the value the handler
  returns: every path ends without one (\<open>None\<close>); what the user sees is the toast. The
  identifier that \<open>storeSaleOffline\<close> returns is not kept.
\<close>

definition handleRecordSale ::
  "form \<Rightarrow> local \<times> firestore \<Rightarrow> (string option \<times> toast) \<times> (local \<times> firestore)" where
  "handleRecordSale f s =
     (case s of (l, fs) \<Rightarrow>
      if form_productName f = [] \<or> form_price f = []
      then ((None, Toast_error ''Please enter product name and price''), s)
      else (case form_selectedBusinessId f of
        None \<Rightarrow> ((None, Toast_error ''Please select a business''), s)
      | Some selectedBusinessId \<Rightarrow>
          if selectedBusinessId = [] then ((None, Toast_error ''Please select a business''), s)
          else (let priceValue = form_priceValue f in
            if isNaN priceValue \<or> num_le priceValue (Fin 0)
            then ((None, Toast_error ''Please enter a valid price''), s)
            else (let quantityValue = form_quantityValue f in
              if isNaN quantityValue \<or> num_le quantityValue (Fin 0)
              then ((None, Toast_error ''Please enter a valid quantity''), s)
              else if form_paymentMethod f = lit ''Custom'' \<and> trim (form_customPaymentMethod f) = []
              then ((None, Toast_error ''Please enter a custom payment method''), s)
              else
                (case saleData_of f selectedBusinessId priceValue quantityValue l of
                   Inl e \<Rightarrow> ((None, error_toast e), s)
                 | Inr saleData \<Rightarrow>
                     if isOnline l
                     then (case addSale saleData fs of
                             (Inl e, fs') \<Rightarrow> ((None, error_toast e), (l, fs'))
                           | (Inr _, fs') \<Rightarrow>
                               ((None, Toast_success ''Sale recorded successfully''), (l, fs')))
                     else (case storeSaleOffline saleData l of
                             (Inl e, l') \<Rightarrow> ((None, error_toast e), (l', fs))
                           | (Inr _, l') \<Rightarrow>
                               ((None, Toast_success
                                  ''Sale saved offline. It will sync when connection is restored.''),
                                (l', fs))))))))"

subsection \<open>Notions used to state the properties\<close>

text \<open>The record with key \<open>k\<close>, if any, flagged as synchronised.\<close>

definition mark1 :: "string \<Rightarrow> pending_sale list \<Rightarrow> pending_sale list" where
  "mark1 k xs = map (\<lambda>x. if sale_id x = k then x\<lparr>synced := True\<rparr> else x) xs"

text \<open>A capture request that passes every check of \<open>handleRecordSale\<close>.\<close>

definition valid_form :: "form \<Rightarrow> string \<Rightarrow> number \<Rightarrow> number \<Rightarrow> bool" where
  "valid_form f b p q =
     (form_productName f \<noteq> [] \<and> form_price f \<noteq> [] \<and>
      form_selectedBusinessId f = Some b \<and> b \<noteq> [] \<and>
      form_priceValue f = p \<and> \<not> isNaN p \<and> \<not> num_le p (Fin 0) \<and>
      form_quantityValue f = q \<and> \<not> isNaN q \<and> \<not> num_le q (Fin 0) \<and>
      (if form_paymentMethod f = lit ''Custom''
       then trim (form_customPaymentMethod f) \<noteq> [] else True))"

subsection \<open>The scenario of the specification\<close>

text \<open>
  One business, a browser that is offline with an empty queue, and three captures of one
  item each, priced 50, 75 and 20, at the rate the page loaded for the business. Between
  two captures the clock and the random source move on.
\<close>

definition scenario_form :: "string \<Rightarrow> number \<Rightarrow> number \<Rightarrow> form" where
  "scenario_form txt price rate =
     \<lparr>form_productName = lit ''Soap'',
      form_price = lit txt,
      form_priceValue = price,
      form_quantityValue = Fin 1,
      form_paymentMethod = lit ''Cash'',
      form_customPaymentMethod = [],
      form_vatRate = rate,
      form_selectedBusinessId = Some ''biz1'',
      form_uid = ''agent7''\<rparr>"

definition scenario_local :: local where
  "scenario_local =
     \<lparr>onLine = False, db = False, pendingSales = [], strict_keys = True, faults = {},
      clock = 1000, random = ''0.25''\<rparr>"

definition scenario_firestore :: "number \<Rightarrow> firestore" where
  "scenario_firestore rate =
     \<lparr>businesses = [(''biz1'', \<lparr>rraVatRate = Some rate\<rparr>)], sales = [],
      fs_faults = {}, fs_clock = 2000\<rparr>"

definition scenario_sale ::
  "string \<Rightarrow> string \<Rightarrow> nat \<Rightarrow> number \<Rightarrow> number \<Rightarrow> number \<Rightarrow> bool \<Rightarrow> pending_sale" where
  "scenario_sale t_txt r_txt t sub vat tot flag =
     \<lparr>businessId = ''biz1'',
      recordedByUserId = ''agent7'',
      items = [\<lparr>productId = ''manual-'' @ t_txt, productName = lit ''Soap'',
                quantity = Fin 1, pricePerItem = sub\<rparr>],
      paymentMethod = lit ''Cash'',
      subtotal = sub, vatAmount = vat, total = tot,
      sale_id = ''offline-'' @ t_txt @ ''-'' @ r_txt,
      synced = flag, createdAt = t, storedAt = t\<rparr>"

text \<open>The queue after the three captures, written out.\<close>

definition scenario_queue :: "bool \<Rightarrow> bool \<Rightarrow> bool \<Rightarrow> pending_sale list" where
  "scenario_queue f1 f2 f3 =
     [scenario_sale ''1000'' ''0.25'' 1000 (Fin 50) (Fin 9) (Fin 59) f1,
      scenario_sale ''1001'' ''0.5'' 1001 (Fin 75) (Fin (27 / 2)) (Fin (177 / 2)) f2,
      scenario_sale ''1002'' ''0.75'' 1002 (Fin 20) (fl (18 / 5)) (fl (118 / 5)) f3]"

definition scenario_captured :: local where
  "scenario_captured =
     \<lparr>onLine = False, db = True, pendingSales = scenario_queue False False False,
      strict_keys = True, faults = {}, clock = 1002, random = ''0.75''\<rparr>"

definition later :: "nat \<Rightarrow> string \<Rightarrow> local \<times> 'r \<Rightarrow> local \<times> 'r" where
  "later t r_txt s = (case s of (l, r) \<Rightarrow> (l\<lparr>clock := t, random := r_txt\<rparr>, r))"

definition scenario_B :: "local \<times> firestore" where
  "scenario_B =
     (let s0 = (scenario_local, scenario_firestore default_vatRate);
          s1 = snd (handleRecordSale (scenario_form ''50'' (Fin 50) default_vatRate) s0);
          s2 = snd (handleRecordSale (scenario_form ''75'' (Fin 75) default_vatRate)
                      (later 1001 ''0.5'' s1));
          s3 = snd (handleRecordSale (scenario_form ''20'' (Fin 20) default_vatRate)
                      (later 1002 ''0.75'' s2))
      in s3)"

text \<open>A submitter that keeps what it is given, and refuses a sale whose subtotal is 75.\<close>

definition scenario_submit :: "sale_data \<Rightarrow> sale_data list \<Rightarrow> (error + unit) \<times> sale_data list" where
  "scenario_submit s r =
     (if subtotal s = Fin 75 then (Inl (Error ''unavailable''), r) else (Inr (), r @ [s]))"

definition keep_submit :: "sale_data \<Rightarrow> sale_data list \<Rightarrow> (error + unit) \<times> sale_data list" where
  "keep_submit s r = (Inr (), r @ [s])"

text \<open>
  A capture of one item priced 100, made offline while the business's rate is \<open>0.25\<close>,
  and the synchronisation run by the page, online, after the rate has been edited to
  \<open>0.5\<close>.
\<close>

definition frozen_sale :: pending_sale where
  "frozen_sale = scenario_sale ''1000'' ''0.25'' 1000 (Fin 100) (Fin 25) (Fin 125) False"




section \<open>Properties\<close>

subsection \<open>Rounding to a double\<close>

lemma huge_numeral [code]:
  "huge = 179769313486231590772930519078902473361797697894230657273430081157732675805500963132708477322407536021120113879871393357658789768814416622492847430639474124377767893424865485276302219601246094119453082952085005768838150682342462881473913110540827237163350510684586298239947245938479716304835356329624224137216"
  by (simp add: huge_def)

















lemma rnd_minus: "rnd (- x) = - rnd x"
  by (simp add: rnd_def sgn_minus)




subsection \<open>Numbers and the rounding of amounts\<close>

lemma huge_pos: "0 < huge"
  by (simp add: huge_def)




lemma fl_minus: "fl (- x) = nneg (fl x)"
  using huge_pos by (auto simp: fl_def Let_def rnd_minus)


lemma nmul_nneg: "nmul (nneg a) b = nneg (nmul a b)"
  by (cases a; cases b) (simp_all add: fl_minus [symmetric])

lemma nadd_nneg: "nadd (nneg a) (nneg b) = nneg (nadd a b)"
  by (cases a; cases b) (simp_all add: fl_minus [symmetric])

lemma floor_half: "\<lfloor>(1::rat) / 2\<rfloor> = 0"
  by (rule floor_unique) simp_all

lemma toFixed2_nneg: "toFixed2 (nneg a) = nneg (toFixed2 a)"
proof (cases a)
  case (Fin x)
  consider "x < 0" | "x = 0" | "0 < x"
    by linarith
  then show ?thesis
  proof cases
    case 1
    with Fin show ?thesis
      by (simp add: toFixed2_def fl_minus [symmetric])
  next
    case 2
    with Fin show ?thesis
      by (simp add: toFixed2_def floor_half fl_minus [symmetric])
  next
    case 3
    with Fin show ?thesis
      by (simp add: toFixed2_def fl_minus [symmetric])
  qed
qed (simp_all add: toFixed2_def)





subsection \<open>The queue\<close>

lemma initDB_ok: "OpenDB \<notin> faults l \<Longrightarrow> initDB l = (Inr (), l\<lparr>db := True\<rparr>)"
  by (cases "db l") (simp_all add: initDB_def)

lemma initDB_open: "db l \<Longrightarrow> initDB l = (Inr (), l)"
  by (simp add: initDB_def)

lemma store_get_None: "store_get k xs = None \<Longrightarrow> mark1 k xs = xs"
  by (auto simp: store_get_def mark1_def find_None_iff intro: map_idI)

lemma store_get_Some:
  assumes "store_get k xs = Some sale" and "distinct (map sale_id xs)"
  shows "store_put (sale\<lparr>synced := True\<rparr>) xs = mark1 k xs"
proof -
  from assms(1) have mem: "sale \<in> set xs" and key: "sale_id sale = k"
    by (auto simp: store_get_def find_Some_iff)
  have inj: "inj_on sale_id (set xs)"
    using assms(2) by (simp add: distinct_map)
  have uniq: "x = sale" if "x \<in> set xs" "sale_id x = k" for x
    using inj that mem key by (blast dest: inj_onD)
  have "map (\<lambda>x. if sale_id x = k then sale\<lparr>synced := True\<rparr> else x) xs = mark1 k xs"
    unfolding mark1_def
  proof (rule map_cong [OF refl])
    fix x assume "x \<in> set xs"
    then show "(if sale_id x = k then sale\<lparr>synced := True\<rparr> else x) =
               (if sale_id x = k then x\<lparr>synced := True\<rparr> else x)"
      using uniq [of x] by (cases "sale_id x = k") simp_all
  qed
  moreover have "sale_id (sale\<lparr>synced := True\<rparr>) \<in> sale_id ` set xs"
    using mem by force
  ultimately show ?thesis
    using key by (simp add: store_put_def)
qed

lemma mark1_keys: "map sale_id (mark1 k xs) = map sale_id xs"
  by (simp add: mark1_def comp_def)

lemma markSaleAsSynced_ok:
  assumes "faults l = {}" and "distinct (map sale_id (pendingSales l))"
  shows "markSaleAsSynced k l =
           (Inr (), l\<lparr>db := True, pendingSales := mark1 k (pendingSales l)\<rparr>)"
  using assms
  by (auto simp: markSaleAsSynced_def initDB_ok store_get_None store_get_Some
           split: option.splits)

lemma find_key_map:
  assumes "sale_id s = k"
  shows "find (\<lambda>r. sale_id r = k) (map (\<lambda>x. if sale_id x = k then s else x) xs) =
           (if k \<in> sale_id ` set xs then Some s else None)"
  using assms by (induction xs) auto

lemma store_put_present:
  assumes "store_get k xs = Some sale"
  shows "store_put (sale\<lparr>synced := True\<rparr>) xs =
           map (\<lambda>x. if sale_id x = k then sale\<lparr>synced := True\<rparr> else x) xs"
    and "k \<in> sale_id ` set xs"
proof -
  from assms have mem: "sale \<in> set xs" and key: "sale_id sale = k"
    by (auto simp: store_get_def find_Some_iff)
  then show "k \<in> sale_id ` set xs"
    by force
  then show "store_put (sale\<lparr>synced := True\<rparr>) xs =
      map (\<lambda>x. if sale_id x = k then sale\<lparr>synced := True\<rparr> else x) xs"
    using key by (simp add: store_put_def)
qed

lemma store_get_put:
  assumes "store_get k xs = Some sale"
  shows "store_get k (store_put (sale\<lparr>synced := True\<rparr>) xs) = Some (sale\<lparr>synced := True\<rparr>)"
proof -
  from assms have key: "sale_id (sale\<lparr>synced := True\<rparr>) = k"
    by (auto simp: store_get_def find_Some_iff)
  show ?thesis
    using store_put_present [OF assms] find_key_map [OF key, of xs]
    by (simp add: store_get_def)
qed

lemma store_put_put:
  assumes "store_get k xs = Some sale"
  shows "store_put (sale\<lparr>synced := True\<rparr>) (store_put (sale\<lparr>synced := True\<rparr>) xs) =
           store_put (sale\<lparr>synced := True\<rparr>) xs"
proof -
  from assms have key: "sale_id sale = k"
    by (auto simp: store_get_def find_Some_iff)
  have "store_get k (store_put (sale\<lparr>synced := True\<rparr>) xs) = Some (sale\<lparr>synced := True\<rparr>)"
    using assms by (rule store_get_put)
  from store_put_present(1) [OF this] show ?thesis
    using key by (simp add: store_put_present(1) [OF assms] comp_def)
qed

lemma markSaleAsSynced_twice:
  "snd (markSaleAsSynced k (snd (markSaleAsSynced k l))) = snd (markSaleAsSynced k l)"
proof (cases "db l \<or> OpenDB \<notin> faults l")
  case False
  then show ?thesis
    by (simp add: markSaleAsSynced_def initDB_def)
next
  case True
  then have init: "initDB l = (Inr (), l\<lparr>db := True\<rparr>)"
    by (cases "db l") (simp_all add: initDB_def)
  show ?thesis
  proof (cases "StoreGet k \<in> faults l")
    case True
    with init show ?thesis
      by (simp add: markSaleAsSynced_def initDB_def)
  next
    case noget: False
    show ?thesis
    proof (cases "store_get k (pendingSales l)")
      case None
      with init noget show ?thesis
        by (simp add: markSaleAsSynced_def initDB_def)
    next
      case (Some sale)
      show ?thesis
      proof (cases "StorePut k \<in> faults l")
        case True
        with init noget Some show ?thesis
          by (simp add: markSaleAsSynced_def initDB_def)
      next
        case False
        with init noget Some show ?thesis
          by (simp add: markSaleAsSynced_def initDB_def store_get_put store_put_put)
      qed
    qed
  qed
qed

lemma mark1_synced:
  assumes "\<forall>x \<in> set xs. sale_id x = k \<longrightarrow> synced x"
  shows "mark1 k xs = xs"
  unfolding mark1_def using assms by (intro map_idI) auto

lemma distinct_keys_insort:
  "distinct (map sale_id (insort_key sale_id r xs)) =
     (sale_id r \<notin> sale_id ` set xs \<and> distinct (map sale_id xs))"
  by (induction xs) (auto simp: set_insort_key)

lemma sorted_keys_insort:
  "sorted (map sale_id xs) \<Longrightarrow> sorted (map sale_id (insort_key sale_id r xs))"
  by (simp add: sorted_insort_key)

lemma store_add_keys:
  assumes "distinct (map sale_id xs)" and "sorted (map sale_id xs)"
  shows "distinct (map sale_id (store_add fs r xs)) \<and> sorted (map sale_id (store_add fs r xs))"
  using assms by (simp add: store_add_def distinct_keys_insort sorted_keys_insort)

lemma storeSaleOffline_keys:
  assumes "distinct (map sale_id (pendingSales l))" and "sorted (map sale_id (pendingSales l))"
  shows "distinct (map sale_id (pendingSales (snd (storeSaleOffline sd l)))) \<and>
         sorted (map sale_id (pendingSales (snd (storeSaleOffline sd l))))"
  using store_add_keys [OF assms] assms
  by (simp add: storeSaleOffline_def initDB_def Let_def)

lemma markSaleAsSynced_keys:
  "map sale_id (pendingSales (snd (markSaleAsSynced k l))) = map sale_id (pendingSales l)"
proof (cases "store_get k (pendingSales l)")
  case None
  then show ?thesis
    by (simp add: markSaleAsSynced_def initDB_def)
next
  case (Some sale)
  then have "sale_id sale = k"
    by (auto simp: store_get_def find_Some_iff)
  then have "map sale_id (store_put (sale\<lparr>synced := True\<rparr>) (pendingSales l)) =
      map sale_id (pendingSales l)"
    by (simp add: store_put_present(1) [OF Some] comp_def)
  with Some show ?thesis
    by (simp add: markSaleAsSynced_def initDB_def)
qed

lemma index_getAll_empty: "index_getAll l v = Succeeds xs \<Longrightarrow> xs = []"
  by (auto simp: index_getAll_def split: if_splits)

lemma getPendingSales_empty: "fst (getPendingSales bid l) = Inr ps \<Longrightarrow> ps = []"
  by (auto simp: getPendingSales_def initDB_def index_getAll_def split: if_splits)

lemma getPendingSales_store: "pendingSales (snd (getPendingSales bid l)) = pendingSales l"
  by (simp add: getPendingSales_def initDB_def index_getAll_def)

lemma deleteSyncedSales_store: "pendingSales (snd (deleteSyncedSales l)) = pendingSales l"
  by (simp add: deleteSyncedSales_def initDB_def index_getAll_def)

lemma deleteSyncedSales_keys:
  assumes "distinct (map sale_id (pendingSales l))" and "sorted (map sale_id (pendingSales l))"
  shows "distinct (map sale_id (pendingSales (snd (deleteSyncedSales l)))) \<and>
         sorted (map sale_id (pendingSales (snd (deleteSyncedSales l))))"
  using assms by (simp add: deleteSyncedSales_store)

lemma sync_try_nothing:
  "\<exists>res l'. sync_try f bid (l, r) = (res, (l', r)) \<and> pendingSales l' = pendingSales l \<and>
     (res = Inr \<lparr>tally_synced = 0, tally_failed = 0\<rparr> \<or> (\<exists>e. res = Inl e))"
proof (cases "getPendingSales bid l")
  case (Pair res l1)
  have st: "pendingSales l1 = pendingSales l"
    using getPendingSales_store [of bid l] Pair by simp
  show ?thesis
  proof (cases res)
    case (Inl e)
    with Pair st show ?thesis
      by simp
  next
    case (Inr ps)
    with Pair getPendingSales_empty [of bid l ps] have ps: "ps = []"
      by simp
    obtain res2 l3 where d: "deleteSyncedSales l1 = (res2, l3)"
      by (cases "deleteSyncedSales l1")
    then have "pendingSales l3 = pendingSales l"
      using deleteSyncedSales_store [of l1] st by simp
    with Pair Inr ps d show ?thesis
      by (cases res2) simp_all
  qed
qed

lemma sync_submits_nothing:
  "\<exists>l'. syncPendingSales f bid (l, r) =
          (Inr \<lparr>tally_synced = 0, tally_failed = 0\<rparr>, (l', r)) \<and>
        pendingSales l' = pendingSales l"
proof (cases "isOnline l")
  case False
  then show ?thesis
    by simp
next
  case True
  from sync_try_nothing [of f bid l r] obtain res l' where
    "sync_try f bid (l, r) = (res, (l', r))" "pendingSales l' = pendingSales l"
    "res = Inr \<lparr>tally_synced = 0, tally_failed = 0\<rparr> \<or> (\<exists>e. res = Inl e)"
    by blast
  with True show ?thesis
    by (cases res) auto
qed

subsection \<open>Evaluations\<close>


lemma double_100: "fl 100 = Fin 100"
  by code_simp

lemma double_0: "fl 0 = Fin 0"
  by code_simp


lemma tax_100:
  "calculateTax_num (Fin 100) default_vatRate =
     \<lparr>tax_subtotal = Fin 100, tax_vatAmount = Fin 18, tax_total = Fin 118\<rparr>"
  by code_simp

lemma tax_1_25:
  "calculateTax_num (Fin (5 / 4)) default_vatRate =
     \<lparr>tax_subtotal = Fin (5 / 4), tax_vatAmount = fl (22 / 100), tax_total = fl (148 / 100)\<rparr>"
  by code_simp

lemma product_rounded_before_toFixed:
  "toFixed2 (nmul (Fin (1 + 1 / 4503599627370496)) (Fin (1 / 8 - 1 / 36028797018963968))) =
     fl (13 / 100) \<and>
   round2 ((1 + 1 / 4503599627370496) * (1 / 8 - 1 / 36028797018963968)) = 12 / 100"
  by code_simp

lemma calculateTax_num_nneg:
  "calculateTax_num (nneg s) r =
     \<lparr>tax_subtotal = nneg (tax_subtotal (calculateTax_num s r)),
      tax_vatAmount = nneg (tax_vatAmount (calculateTax_num s r)),
      tax_total = nneg (tax_total (calculateTax_num s r))\<rparr>"
  by (simp add: calculateTax_num_def Let_def toFixed2_nneg nmul_nneg nadd_nneg)

lemma decimal_1000: "decimal 1000 = ''1000''"
  by code_simp

lemma trim_Soap: "trim (lit ''Soap'') = lit ''Soap''"
  by code_simp

lemma trim_no_break_space: "trim [0xA0, 0x20, 0x3000] = []"
  by code_simp

subsection \<open>Capture\<close>

lemma saleData_valid:
  assumes "valid_form f b p q"
  shows "saleData_of f b p q l =
           Inr \<lparr>businessId = b,
                recordedByUserId = form_uid f,
                items = [\<lparr>productId = ''manual-'' @ decimal (clock l),
                          productName = trim (form_productName f),
                          quantity = q,
                          pricePerItem = p\<rparr>],
                paymentMethod =
                  (if form_paymentMethod f = lit ''Custom''
                   then trim (form_customPaymentMethod f) else form_paymentMethod f),
                subtotal = nmul p q,
                vatAmount = toFixed2 (nmul (nmul p q) (form_vatRate f)),
                total = toFixed2 (nadd (nmul p q) (nmul (nmul p q) (form_vatRate f)))\<rparr>"
  by (simp add: saleData_of_def calculateTax_num_def Let_def)

lemma handleRecordSale_valid:
  assumes "valid_form f b p q" and "saleData_of f b p q l = Inr sd"
  shows "handleRecordSale f (l, fs) =
           (if isOnline l
            then (case addSale sd fs of
                    (Inl e, fs') \<Rightarrow> ((None, error_toast e), (l, fs'))
                  | (Inr u, fs') \<Rightarrow>
                      ((None, Toast_success ''Sale recorded successfully''), (l, fs')))
            else (case storeSaleOffline sd l of
                    (Inl e, l') \<Rightarrow> ((None, error_toast e), (l', fs))
                  | (Inr u, l') \<Rightarrow>
                      ((None, Toast_success
                         ''Sale saved offline. It will sync when connection is restored.''),
                       (l', fs))))"
  using assms
  by (auto simp: valid_form_def handleRecordSale_def Let_def split: if_splits)

lemma handleRecordSale_returns: "fst (fst (handleRecordSale f s)) = None"
  by (cases s)
     (simp add: handleRecordSale_def Let_def split: option.splits sum.splits prod.splits)

lemma storeSaleOffline_ok:
  assumes "OpenDB \<notin> faults l" and "StoreAdd \<notin> faults l"
    and "saleRecord =
           \<lparr>businessId = businessId sd, recordedByUserId = recordedByUserId sd,
            items = items sd, paymentMethod = paymentMethod sd, subtotal = subtotal sd,
            vatAmount = vatAmount sd, total = total sd,
            sale_id = ''offline-'' @ decimal (clock l) @ ''-'' @ random l,
            synced = False, createdAt = clock l, storedAt = clock l\<rparr>"
    and "sale_id saleRecord \<notin> sale_id ` set (pendingSales l)"
  shows "storeSaleOffline sd l =
           (Inr (sale_id saleRecord),
            l\<lparr>db := True, pendingSales := insort_key sale_id saleRecord (pendingSales l)\<rparr>)"
  using assms
  by (simp add: storeSaleOffline_def initDB_ok store_add_def Let_def)

lemma addSale_ok:
  assumes "fs_faults fs = {}" and "map_of (businesses fs) (businessId sd) = Some biz"
    and "sub = foldl (\<lambda>sum item. nadd sum (nmul (pricePerItem item) (quantity item)))
                 (Fin 0) (items sd)"
  shows "addSale sd fs =
           (Inr (),
            fs\<lparr>sales := sales fs @
              [\<lparr>doc_businessId = businessId sd,
                doc_recordedByUserId = recordedByUserId sd,
                doc_createdAt = fs_clock fs,
                doc_items = items sd,
                doc_paymentMethod = paymentMethod sd,
                doc_subtotal = sub,
                doc_vatAmount = toFixed2 (nmul sub (rate_or_default biz)),
                doc_total = toFixed2 (nadd sub (nmul sub (rate_or_default biz)))\<rparr>]\<rparr>)"
  using assms by (simp add: addSale_def getBusiness_def calculateTax_num_def Let_def)

lemma valid_100: "valid_form (scenario_form ''100'' (Fin 100) (Fin (1 / 4))) ''biz1'' (Fin 100) (Fin 1)"
  by (simp add: valid_form_def scenario_form_def lit_def isNaN_def)

lemma capture_100:
  "handleRecordSale (scenario_form ''100'' (Fin 100) (Fin (1 / 4)))
       (scenario_local, scenario_firestore (Fin (1 / 4))) =
     ((None, Toast_success ''Sale saved offline. It will sync when connection is restored.''),
      (scenario_local\<lparr>db := True, pendingSales := [frozen_sale]\<rparr>,
       scenario_firestore (Fin (1 / 4))))"
  by code_simp

lemma store_100:
  "storeSaleOffline (firestoreSale frozen_sale) scenario_local =
     (Inr ''offline-1000-0.25'', scenario_local\<lparr>db := True, pendingSales := [frozen_sale]\<rparr>)"
  by code_simp


text \<open>
  The three captures of the scenario leave the queue that \<open>scenario_captured\<close> writes
  out: three unsynchronised records with VAT \<open>9\<close>, \<open>13.5\<close> and \<open>3.6\<close>.
\<close>

lemma capture_50:
  "handleRecordSale (scenario_form ''50'' (Fin 50) default_vatRate)
       (scenario_local, scenario_firestore default_vatRate) =
     ((None, Toast_success ''Sale saved offline. It will sync when connection is restored.''),
      (scenario_local\<lparr>db := True,
         pendingSales := [scenario_sale ''1000'' ''0.25'' 1000 (Fin 50) (Fin 9) (Fin 59) False]\<rparr>,
       scenario_firestore default_vatRate))"
  by code_simp

lemma capture_75:
  "handleRecordSale (scenario_form ''75'' (Fin 75) default_vatRate)
       (scenario_local\<lparr>db := True,
          pendingSales := [scenario_sale ''1000'' ''0.25'' 1000 (Fin 50) (Fin 9) (Fin 59) False],
          clock := 1001, random := ''0.5''\<rparr>,
        scenario_firestore default_vatRate) =
     ((None, Toast_success ''Sale saved offline. It will sync when connection is restored.''),
      (scenario_local\<lparr>db := True,
         pendingSales :=
           [scenario_sale ''1000'' ''0.25'' 1000 (Fin 50) (Fin 9) (Fin 59) False,
            scenario_sale ''1001'' ''0.5'' 1001 (Fin 75) (Fin (27 / 2)) (Fin (177 / 2)) False],
         clock := 1001, random := ''0.5''\<rparr>,
       scenario_firestore default_vatRate))"
  by code_simp

lemma capture_20:
  "handleRecordSale (scenario_form ''20'' (Fin 20) default_vatRate)
       (scenario_local\<lparr>db := True,
          pendingSales :=
            [scenario_sale ''1000'' ''0.25'' 1000 (Fin 50) (Fin 9) (Fin 59) False,
             scenario_sale ''1001'' ''0.5'' 1001 (Fin 75) (Fin (27 / 2)) (Fin (177 / 2)) False],
          clock := 1002, random := ''0.75''\<rparr>,
        scenario_firestore default_vatRate) =
     ((None, Toast_success ''Sale saved offline. It will sync when connection is restored.''),
      (scenario_captured, scenario_firestore default_vatRate))"
  by code_simp

lemma scenario_B_captured: "scenario_B = (scenario_captured, scenario_firestore default_vatRate)"
  by (simp add: scenario_B_def later_def capture_50 capture_75 capture_20)

section \<open>The properties of the specification\<close>

subsection \<open>The tax engine\<close>




text \<open>
  C8, as stated, fails: a negative subtotal is not rejected; \<open>calculateTax(-100, 0.18)\<close>
  returns \<open>{subtotal: -100, vatAmount: -18, total: -118}\<close>.
\<close>

theorem calculateTax_negative_counterexample:
  "(- 100 :: rat) < 0 \<and>
   calculateTax (Number (Fin (- 100))) (Some default_vatRate) =
     Inr \<lparr>tax_subtotal = Fin (- 100), tax_vatAmount = Fin (- 18), tax_total = Fin (- 118)\<rparr>"
  using calculateTax_num_nneg [of "Fin 100" default_vatRate] by (simp add: tax_100)

text \<open>
  C8, amended: \<open>calculateTax\<close> never fails on numbers, whatever they are: a negative
  subtotal or a rate outside \<open>[0,1]\<close> (an infinity and NaN included) is neither rejected
  nor clamped, the three amounts are computed as for any other input, and the result for
  \<open>-s\<close> mirrors the result for \<open>s\<close>; with the rate left out it returns as well. The only
  failure is the \<open>TypeError\<close> of \<open>subtotal.toFixed\<close> on a subtotal that is not a number.
\<close>

theorem calculateTax_never_invalid:
  "calculateTax (Number s) (Some r) =
     Inr \<lparr>tax_subtotal = toFixed2 s, tax_vatAmount = toFixed2 (nmul s r),
          tax_total = toFixed2 (nadd s (nmul s r))\<rparr> \<and>
   calculateTax (Number (nneg s)) (Some r) =
     Inr \<lparr>tax_subtotal = nneg (toFixed2 s), tax_vatAmount = nneg (toFixed2 (nmul s r)),
          tax_total = nneg (toFixed2 (nadd s (nmul s r)))\<rparr> \<and>
   (\<exists>t. calculateTax (Number s) None = Inr t) \<and>
   (\<exists>m. calculateTax Other rate = Inl (TypeError m))"
  by (simp add: calculateTax_num_def Let_def toFixed2_nneg nmul_nneg nadd_nneg)

theorem calculateTax_never_invalid_witness:
  "calculateTax (Number (Fin 100)) (Some (Fin (3 / 2))) =
     Inr \<lparr>tax_subtotal = Fin 100, tax_vatAmount = Fin 150, tax_total = Fin 250\<rparr> \<and>
   calculateTax (Number (Fin (- 100))) (Some (Fin (3 / 2))) =
     Inr \<lparr>tax_subtotal = Fin (- 100), tax_vatAmount = Fin (- 150), tax_total = Fin (- 250)\<rparr>"
proof -
  have t: "toFixed2 (Fin 100) = Fin 100" "toFixed2 (nmul (Fin 100) (Fin (3 / 2))) = Fin 150"
    "toFixed2 (nadd (Fin 100) (nmul (Fin 100) (Fin (3 / 2)))) = Fin 250"
    by code_simp+
  from calculateTax_never_invalid [of "Fin 100" "Fin (3 / 2)"] show ?thesis
    by (simp only: t) simp
qed

subsection \<open>Synchronisation\<close>

text \<open>
  C3 does not hold of the code. From the queue of the scenario (three unsynchronised
  records), online, \<open>syncPendingSales\<close> with a submitter that refuses the second sale only
  returns \<open>{synced: 0, failed: 0}\<close>, not \<open>{synced: 2, failed: 1}\<close>: the submitter is never
  called (the remote state is unchanged) and the three records stay as they were.
  \<open>getPendingSales\<close> afterwards rejects with the \<open>DataError\<close> of \<open>index.getAll(false)\<close>; on
  an engine that does not check the key it resolves with no record at all, never with
  the one record that is left.
\<close>

theorem sync_lost_partial_failure:
  "map synced (pendingSales (scenario_captured\<lparr>onLine := True\<rparr>)) = [False, False, False] \<and>
   syncPendingSales scenario_submit (Some ''biz1'') (scenario_captured\<lparr>onLine := True\<rparr>, []) =
     (Inr \<lparr>tally_synced = 0, tally_failed = 0\<rparr>, (scenario_captured\<lparr>onLine := True\<rparr>, [])) \<and>
   fst (getPendingSales (Some ''biz1'') (scenario_captured\<lparr>onLine := True\<rparr>)) =
     Inl (DataError ''The parameter is not a valid key.'') \<and>
   syncPendingSales scenario_submit (Some ''biz1'')
       (scenario_captured\<lparr>onLine := True, strict_keys := False\<rparr>, []) =
     (Inr \<lparr>tally_synced = 0, tally_failed = 0\<rparr>,
      (scenario_captured\<lparr>onLine := True, strict_keys := False\<rparr>, [])) \<and>
   fst (getPendingSales (Some ''biz1'')
          (scenario_captured\<lparr>onLine := True, strict_keys := False\<rparr>)) = Inr []"
  by (simp add: scenario_captured_def scenario_queue_def scenario_sale_def isOnline_def
        getPendingSales_def deleteSyncedSales_def initDB_def index_getAll_def truthy_def)

text \<open>
  C4 does not hold of the code. From the queue of the scenario, online, one
  \<open>syncPendingSales\<close> with a submitter that always succeeds returns
  \<open>{synced: 0, failed: 0}\<close>, submits none of the three records and leaves them queued and
  unsynchronised, on an engine that checks keys and on one that does not.
\<close>

theorem sync_drains_nothing:
  "map synced (pendingSales (scenario_captured\<lparr>onLine := True\<rparr>)) = [False, False, False] \<and>
   syncPendingSales keep_submit None (scenario_captured\<lparr>onLine := True\<rparr>, []) =
     (Inr \<lparr>tally_synced = 0, tally_failed = 0\<rparr>, (scenario_captured\<lparr>onLine := True\<rparr>, [])) \<and>
   fst (getPendingSales None (scenario_captured\<lparr>onLine := True\<rparr>)) =
     Inl (DataError ''The parameter is not a valid key.'') \<and>
   syncPendingSales keep_submit None
       (scenario_captured\<lparr>onLine := True, strict_keys := False\<rparr>, []) =
     (Inr \<lparr>tally_synced = 0, tally_failed = 0\<rparr>,
      (scenario_captured\<lparr>onLine := True, strict_keys := False\<rparr>, [])) \<and>
   fst (getPendingSales None (scenario_captured\<lparr>onLine := True, strict_keys := False\<rparr>)) =
     Inr []"
  by (simp add: scenario_captured_def scenario_queue_def scenario_sale_def isOnline_def
        getPendingSales_def deleteSyncedSales_def initDB_def index_getAll_def truthy_def)

text \<open>
  C5. When \<open>isOnline()\<close> is false, \<open>syncPendingSales\<close> returns \<open>{synced: 0, failed: 0}\<close>
  and leaves the whole state as it was, whatever the callback: the callback is not
  called, the database is not opened and no record changes.
\<close>

theorem sync_offline_noop:
  assumes "\<not> isOnline l"
  shows "syncPendingSales f bid (l, r) =
           (Inr \<lparr>tally_synced = 0, tally_failed = 0\<rparr>, (l, r))"
  using assms by simp

theorem sync_offline_noop_witness:
  "\<not> isOnline scenario_captured \<and>
   syncPendingSales scenario_submit (Some ''biz1'') (scenario_captured, []) =
     (Inr \<lparr>tally_synced = 0, tally_failed = 0\<rparr>, (scenario_captured, []))"
proof -
  have h: "\<not> isOnline scenario_captured"
    by (simp add: isOnline_def scenario_captured_def)
  from h sync_offline_noop [OF h] show ?thesis
    by simp
qed

text \<open>
  C10. \<open>syncPendingSales\<close> always returns a tally, never an error. When the browser is
  online and the queue cannot be opened or read, it returns \<open>{synced: 0, failed: 0}\<close>; when
  the final \<open>deleteSyncedSales\<close> fails, it returns \<open>{synced: 0, failed: 0}\<close> as well,
  whatever the loop had counted; an empty queue gives the same tally. (The read of this
  code yields no record, so the loop has counted nothing when the purge runs.)
\<close>

theorem sync_never_throws:
  "(\<exists>t s. syncPendingSales f bid (l, r) = (Inr t, s)) \<and>
   (isOnline l \<longrightarrow> fst (getPendingSales bid l) = Inl e \<longrightarrow>
      syncPendingSales f bid (l, r) =
        (Inr \<lparr>tally_synced = 0, tally_failed = 0\<rparr>, (snd (getPendingSales bid l), r))) \<and>
   (isOnline l \<longrightarrow> getPendingSales bid l = (Inr pending, l1) \<longrightarrow>
      sync_loop f pending 0 0 (l1, r) = ((n, m), (l2, r2)) \<longrightarrow>
      fst (deleteSyncedSales l2) = Inl e \<longrightarrow>
      syncPendingSales f bid (l, r) =
        (Inr \<lparr>tally_synced = 0, tally_failed = 0\<rparr>, (snd (deleteSyncedSales l2), r2))) \<and>
   (isOnline l \<longrightarrow> faults l = {} \<longrightarrow> pendingSales l = [] \<longrightarrow>
      fst (syncPendingSales f bid (l, r)) = Inr \<lparr>tally_synced = 0, tally_failed = 0\<rparr>)"
proof (intro conjI impI)
  show "\<exists>t s. syncPendingSales f bid (l, r) = (Inr t, s)"
    by (simp split: prod.splits sum.splits)
next
  assume "isOnline l" and "fst (getPendingSales bid l) = Inl e"
  then show "syncPendingSales f bid (l, r) =
      (Inr \<lparr>tally_synced = 0, tally_failed = 0\<rparr>, (snd (getPendingSales bid l), r))"
    by (cases "getPendingSales bid l") simp
next
  assume "isOnline l" and "getPendingSales bid l = (Inr pending, l1)"
    and "sync_loop f pending 0 0 (l1, r) = ((n, m), (l2, r2))"
    and "fst (deleteSyncedSales l2) = Inl e"
  then show "syncPendingSales f bid (l, r) =
      (Inr \<lparr>tally_synced = 0, tally_failed = 0\<rparr>, (snd (deleteSyncedSales l2), r2))"
    by (cases "deleteSyncedSales l2") simp
next
  assume "isOnline l" and "faults l = {}" and "pendingSales l = []"
  show "fst (syncPendingSales f bid (l, r)) = Inr \<lparr>tally_synced = 0, tally_failed = 0\<rparr>"
    using sync_submits_nothing [of f bid l r] by auto
qed

theorem sync_never_throws_witness:
  "isOnline (scenario_captured\<lparr>onLine := True, db := False, faults := {OpenDB}\<rparr>) \<and>
   fst (getPendingSales None
          (scenario_captured\<lparr>onLine := True, db := False, faults := {OpenDB}\<rparr>)) =
     Inl (Error ''Failed to open IndexedDB'') \<and>
   syncPendingSales keep_submit None
       (scenario_captured\<lparr>onLine := True, db := False, faults := {OpenDB}\<rparr>, []) =
     (Inr \<lparr>tally_synced = 0, tally_failed = 0\<rparr>,
      (scenario_captured\<lparr>onLine := True, db := False, faults := {OpenDB}\<rparr>, [])) \<and>
   isOnline (scenario_captured\<lparr>onLine := True\<rparr>) \<and>
   fst (getPendingSales None (scenario_captured\<lparr>onLine := True\<rparr>)) =
     Inl (DataError ''The parameter is not a valid key.'') \<and>
   syncPendingSales keep_submit None (scenario_captured\<lparr>onLine := True\<rparr>, []) =
     (Inr \<lparr>tally_synced = 0, tally_failed = 0\<rparr>, (scenario_captured\<lparr>onLine := True\<rparr>, [])) \<and>
   isOnline (scenario_captured\<lparr>onLine := True, strict_keys := False,
               faults := {IndexGetAll True}\<rparr>) \<and>
   fst (deleteSyncedSales
          (scenario_captured\<lparr>onLine := True, strict_keys := False,
             faults := {IndexGetAll True}\<rparr>)) =
     Inl (Error ''Failed to get synced sales'') \<and>
   syncPendingSales keep_submit None
       (scenario_captured\<lparr>onLine := True, strict_keys := False,
          faults := {IndexGetAll True}\<rparr>, []) =
     (Inr \<lparr>tally_synced = 0, tally_failed = 0\<rparr>,
      (scenario_captured\<lparr>onLine := True, strict_keys := False,
         faults := {IndexGetAll True}\<rparr>, []))"
proof -
  let ?A = "scenario_captured\<lparr>onLine := True, db := False, faults := {OpenDB}\<rparr>"
  let ?B = "scenario_captured\<lparr>onLine := True\<rparr>"
  let ?C = "scenario_captured\<lparr>onLine := True, strict_keys := False,
      faults := {IndexGetAll True}\<rparr>"
  have on: "isOnline ?A" "isOnline ?B" "isOnline ?C"
    by (simp_all add: isOnline_def)
  have a: "getPendingSales None ?A = (Inl (Error ''Failed to open IndexedDB''), ?A)"
    by (simp add: getPendingSales_def initDB_def scenario_captured_def)
  have b: "getPendingSales None ?B =
      (Inl (DataError ''The parameter is not a valid key.''), ?B)"
    by (simp add: getPendingSales_def initDB_def index_getAll_def scenario_captured_def)
  have c1: "getPendingSales None ?C = (Inr [], ?C)"
    by (simp add: getPendingSales_def initDB_def index_getAll_def truthy_def
          scenario_captured_def)
  have c2: "sync_loop keep_submit [] 0 0 (?C, []) = ((0, 0), (?C, []))"
    by simp
  have c3: "deleteSyncedSales ?C = (Inl (Error ''Failed to get synced sales''), ?C)"
    by (simp add: deleteSyncedSales_def initDB_def index_getAll_def scenario_captured_def)
  note t = sync_never_throws [THEN conjunct2]
  from t [of ?A None "Error ''Failed to open IndexedDB''" keep_submit "[]", THEN conjunct1]
    on(1) a
  have ra: "syncPendingSales keep_submit None (?A, []) =
      (Inr \<lparr>tally_synced = 0, tally_failed = 0\<rparr>, (?A, []))"
    by simp
  from t [of ?B None "DataError ''The parameter is not a valid key.''" keep_submit "[]",
      THEN conjunct1] on(2) b
  have rb: "syncPendingSales keep_submit None (?B, []) =
      (Inr \<lparr>tally_synced = 0, tally_failed = 0\<rparr>, (?B, []))"
    by simp
  from t [of ?C None "Error ''Failed to get synced sales''" keep_submit "[]" "[]" ?C 0 0 ?C "[]",
      THEN conjunct2, THEN conjunct1] on(3) c1 c2 c3
  have rc: "syncPendingSales keep_submit None (?C, []) =
      (Inr \<lparr>tally_synced = 0, tally_failed = 0\<rparr>, (?C, []))"
    by simp
  from on a b c3 ra rb rc show ?thesis
    by simp
qed

subsection \<open>The queue\<close>

text \<open>
  C6. \<open>markSaleAsSynced\<close> is idempotent: in every state and for every key, the state
  after two calls is the state after one. When no request fails, the keys of the store
  are distinct and no record with the key is unsynchronised (the record is already
  synchronised, or there is none), the call resolves and changes no record.
\<close>

theorem markSaleAsSynced_idempotent:
  "snd (markSaleAsSynced k (snd (markSaleAsSynced k l))) = snd (markSaleAsSynced k l) \<and>
   (faults l = {} \<longrightarrow> distinct (map sale_id (pendingSales l)) \<longrightarrow>
    (\<forall>sale \<in> set (pendingSales l). sale_id sale = k \<longrightarrow> synced sale) \<longrightarrow>
      markSaleAsSynced k l = (Inr (), l\<lparr>db := True\<rparr>))"
  by (simp add: markSaleAsSynced_twice markSaleAsSynced_ok mark1_synced)

theorem markSaleAsSynced_idempotent_witness:
  "faults (scenario_captured\<lparr>pendingSales := scenario_queue True False False\<rparr>) = {} \<and>
   distinct (map sale_id (scenario_queue True False False)) \<and>
   synced (scenario_sale ''1000'' ''0.25'' 1000 (Fin 50) (Fin 9) (Fin 59) True) \<and>
   snd (markSaleAsSynced ''offline-1000-0.25''
          (snd (markSaleAsSynced ''offline-1000-0.25''
                  (scenario_captured\<lparr>pendingSales := scenario_queue True False False\<rparr>)))) =
     snd (markSaleAsSynced ''offline-1000-0.25''
            (scenario_captured\<lparr>pendingSales := scenario_queue True False False\<rparr>)) \<and>
   markSaleAsSynced ''offline-1000-0.25''
       (scenario_captured\<lparr>pendingSales := scenario_queue True False False\<rparr>) =
     (Inr (), scenario_captured\<lparr>pendingSales := scenario_queue True False False\<rparr>) \<and>
   markSaleAsSynced ''offline-none''
       (scenario_captured\<lparr>pendingSales := scenario_queue True False False\<rparr>) =
     (Inr (), scenario_captured\<lparr>pendingSales := scenario_queue True False False\<rparr>)"
proof -
  let ?L = "scenario_captured\<lparr>pendingSales := scenario_queue True False False\<rparr>"
  have h1: "faults ?L = {}"
    by (simp add: scenario_captured_def)
  have h2: "distinct (map sale_id (pendingSales ?L))"
    by (simp add: scenario_queue_def scenario_sale_def)
  have h3: "\<forall>sale \<in> set (pendingSales ?L). sale_id sale = ''offline-1000-0.25'' \<longrightarrow> synced sale"
    by (simp add: scenario_queue_def scenario_sale_def)
  have h4: "\<forall>sale \<in> set (pendingSales ?L). sale_id sale = ''offline-none'' \<longrightarrow> synced sale"
    by (simp add: scenario_queue_def scenario_sale_def)
  have d: "?L\<lparr>db := True\<rparr> = ?L"
    by (simp add: scenario_captured_def)
  have s: "synced (scenario_sale ''1000'' ''0.25'' 1000 (Fin 50) (Fin 9) (Fin 59) True)"
    by (simp add: scenario_sale_def)
  from markSaleAsSynced_idempotent [of "''offline-1000-0.25''" ?L]
       markSaleAsSynced_idempotent [of "''offline-none''" ?L]
       h1 h2 h3 h4 d s
  show ?thesis
    by simp
qed

text \<open>
  C7 does not hold of the code. Marking the first and the third record of the scenario
  gives a store with two synchronised records and one unsynchronised. On it
  \<open>deleteSyncedSales\<close> removes nothing: it rejects with the \<open>DataError\<close> of
  \<open>index.getAll(true)\<close>, and on an engine that does not check the key it resolves; in both
  cases the two synchronised records are still in the store.
\<close>

theorem deleteSyncedSales_deletes_nothing:
  "snd (markSaleAsSynced ''offline-1002-0.75''
          (snd (markSaleAsSynced ''offline-1000-0.25'' scenario_captured))) =
     scenario_captured\<lparr>pendingSales := scenario_queue True False True\<rparr> \<and>
   map synced (scenario_queue True False True) = [True, False, True] \<and>
   deleteSyncedSales (scenario_captured\<lparr>pendingSales := scenario_queue True False True\<rparr>) =
     (Inl (DataError ''The parameter is not a valid key.''),
      scenario_captured\<lparr>pendingSales := scenario_queue True False True\<rparr>) \<and>
   deleteSyncedSales
       (scenario_captured\<lparr>pendingSales := scenario_queue True False True,
          strict_keys := False\<rparr>) =
     (Inr (),
      scenario_captured\<lparr>pendingSales := scenario_queue True False True,
        strict_keys := False\<rparr>)"
  by (simp add: scenario_captured_def scenario_queue_def scenario_sale_def
        deleteSyncedSales_def initDB_def index_getAll_def markSaleAsSynced_def
        store_get_def store_put_def)

subsection \<open>Capture and commit\<close>

text \<open>
  C9, as stated, fails: the capture operation returns no identifier. For a valid form,
  offline, \<open>handleRecordSale\<close> queues the unsynchronised record
  \<open>offline-1000-0.25\<close>, which \<open>storeSaleOffline\<close> returns, and itself returns nothing.
\<close>

theorem handleRecordSale_discards_id:
  "valid_form (scenario_form ''100'' (Fin 100) (Fin (1 / 4))) ''biz1'' (Fin 100) (Fin 1) \<and>
   \<not> isOnline scenario_local \<and>
   pendingSales scenario_local = [] \<and>
   pendingSales (fst (snd (handleRecordSale (scenario_form ''100'' (Fin 100) (Fin (1 / 4)))
                             (scenario_local, scenario_firestore (Fin (1 / 4)))))) =
     [frozen_sale] \<and>
   sale_id frozen_sale = ''offline-1000-0.25'' \<and> \<not> synced frozen_sale \<and>
   fst (storeSaleOffline (firestoreSale frozen_sale) scenario_local) =
     Inr ''offline-1000-0.25'' \<and>
   fst (fst (handleRecordSale (scenario_form ''100'' (Fin 100) (Fin (1 / 4)))
               (scenario_local, scenario_firestore (Fin (1 / 4))))) = None \<and>
   fst (fst (handleRecordSale (scenario_form ''100'' (Fin 100) (Fin (1 / 4)))
               (scenario_local, scenario_firestore (Fin (1 / 4))))) \<noteq>
     Some ''offline-1000-0.25''"
  using valid_100
  by (simp add: capture_100 store_100)
     (simp add: scenario_local_def isOnline_def frozen_sale_def scenario_sale_def)

text \<open>
  C9, amended: for every form that passes the checks of \<open>handleRecordSale\<close>, with the sale
  \<open>sd\<close> built from it (the subtotal is the double product of price and quantity, VAT and
  total are those of \<open>calculateTax\<close> at the rate the page has loaded), the handler returns
  no value and takes exactly one path.
  \<^item> Online it calls \<open>addSale sd\<close> and leaves the local state as it was; when Firestore
    answers and the business exists, the collection of sales gains exactly the document
    \<open>doc\<close>, whose amounts \<open>addSale\<close> computes again from the items and the business's
    rate.
  \<^item> Offline it calls \<open>storeSaleOffline sd\<close> and leaves Firestore as it was; when the
    database opens, the add request succeeds and the identifier is new, the store gains
    exactly the record \<open>saleRecord\<close>, unsynchronised and carrying \<open>sd\<close>, and
    \<open>storeSaleOffline\<close> returns its identifier, which the handler does not keep.
\<close>

theorem handleRecordSale_paths:
  assumes "valid_form f b p q"
    and "sd =
           \<lparr>businessId = b,
            recordedByUserId = form_uid f,
            items = [\<lparr>productId = ''manual-'' @ decimal (clock l),
                      productName = trim (form_productName f),
                      quantity = q,
                      pricePerItem = p\<rparr>],
            paymentMethod =
              (if form_paymentMethod f = lit ''Custom''
               then trim (form_customPaymentMethod f) else form_paymentMethod f),
            subtotal = nmul p q,
            vatAmount = toFixed2 (nmul (nmul p q) (form_vatRate f)),
            total = toFixed2 (nadd (nmul p q) (nmul (nmul p q) (form_vatRate f)))\<rparr>"
    and "saleRecord =
           \<lparr>businessId = businessId sd, recordedByUserId = recordedByUserId sd,
            items = items sd, paymentMethod = paymentMethod sd, subtotal = subtotal sd,
            vatAmount = vatAmount sd, total = total sd,
            sale_id = ''offline-'' @ decimal (clock l) @ ''-'' @ random l,
            synced = False, createdAt = clock l, storedAt = clock l\<rparr>"
    and "doc =
           \<lparr>doc_businessId = b,
            doc_recordedByUserId = form_uid f,
            doc_createdAt = fs_clock fs,
            doc_items = items sd,
            doc_paymentMethod = paymentMethod sd,
            doc_subtotal = nadd (Fin 0) (nmul p q),
            doc_vatAmount = toFixed2 (nmul (nadd (Fin 0) (nmul p q)) (rate_or_default biz)),
            doc_total =
              toFixed2 (nadd (nadd (Fin 0) (nmul p q))
                          (nmul (nadd (Fin 0) (nmul p q)) (rate_or_default biz)))\<rparr>"
  shows "fst (fst (handleRecordSale f (l, fs))) = None \<and>
         (isOnline l \<longrightarrow>
            handleRecordSale f (l, fs) =
              (case addSale sd fs of
                 (Inl e, fs') \<Rightarrow> ((None, error_toast e), (l, fs'))
               | (Inr u, fs') \<Rightarrow>
                   ((None, Toast_success ''Sale recorded successfully''), (l, fs')))) \<and>
         (isOnline l \<longrightarrow> fs_faults fs = {} \<longrightarrow> map_of (businesses fs) b = Some biz \<longrightarrow>
            handleRecordSale f (l, fs) =
              ((None, Toast_success ''Sale recorded successfully''),
               (l, fs\<lparr>sales := sales fs @ [doc]\<rparr>))) \<and>
         (\<not> isOnline l \<longrightarrow>
            handleRecordSale f (l, fs) =
              (case storeSaleOffline sd l of
                 (Inl e, l') \<Rightarrow> ((None, error_toast e), (l', fs))
               | (Inr u, l') \<Rightarrow>
                   ((None, Toast_success
                      ''Sale saved offline. It will sync when connection is restored.''),
                    (l', fs)))) \<and>
         (\<not> isOnline l \<longrightarrow> OpenDB \<notin> faults l \<longrightarrow> StoreAdd \<notin> faults l \<longrightarrow>
          sale_id saleRecord \<notin> sale_id ` set (pendingSales l) \<longrightarrow>
            storeSaleOffline sd l =
              (Inr (sale_id saleRecord),
               l\<lparr>db := True, pendingSales := insort_key sale_id saleRecord (pendingSales l)\<rparr>) \<and>
            handleRecordSale f (l, fs) =
              ((None, Toast_success
                  ''Sale saved offline. It will sync when connection is restored.''),
               (l\<lparr>db := True, pendingSales := insort_key sale_id saleRecord (pendingSales l)\<rparr>,
                fs)) \<and>
            set (insort_key sale_id saleRecord (pendingSales l)) =
              insert saleRecord (set (pendingSales l)) \<and>
            \<not> synced saleRecord \<and> firestoreSale saleRecord = sd)"
proof -
  have sd: "saleData_of f b p q l = Inr sd"
    unfolding assms(2) using assms(1) by (rule saleData_valid)
  note run = handleRecordSale_valid [OF assms(1) sd, of fs]
  have b: "businessId sd = b" and it: "items sd =
      [\<lparr>productId = ''manual-'' @ decimal (clock l), productName = trim (form_productName f),
        quantity = q, pricePerItem = p\<rparr>]"
    by (simp_all add: assms(2))
  have c0: "fst (fst (handleRecordSale f (l, fs))) = None"
    by (rule handleRecordSale_returns)
  have c1: "isOnline l \<longrightarrow>
      handleRecordSale f (l, fs) =
        (case addSale sd fs of
           (Inl e, fs') \<Rightarrow> ((None, error_toast e), (l, fs'))
         | (Inr u, fs') \<Rightarrow>
             ((None, Toast_success ''Sale recorded successfully''), (l, fs')))"
    by (simp add: run)
  have c2: "isOnline l \<longrightarrow> fs_faults fs = {} \<longrightarrow> map_of (businesses fs) b = Some biz \<longrightarrow>
      handleRecordSale f (l, fs) =
        ((None, Toast_success ''Sale recorded successfully''),
         (l, fs\<lparr>sales := sales fs @ [doc]\<rparr>))"
  proof (intro impI)
    assume on: "isOnline l" and nf: "fs_faults fs = {}"
      and biz: "map_of (businesses fs) b = Some biz"
    have "addSale sd fs = (Inr (), fs\<lparr>sales := sales fs @ [doc]\<rparr>)"
      using addSale_ok [OF nf _ refl, of sd biz] biz b
      by (simp add: it assms(4) assms(2))
    with on show "handleRecordSale f (l, fs) =
        ((None, Toast_success ''Sale recorded successfully''),
         (l, fs\<lparr>sales := sales fs @ [doc]\<rparr>))"
      by (simp add: run)
  qed
  have c3: "\<not> isOnline l \<longrightarrow>
      handleRecordSale f (l, fs) =
        (case storeSaleOffline sd l of
           (Inl e, l') \<Rightarrow> ((None, error_toast e), (l', fs))
         | (Inr u, l') \<Rightarrow>
             ((None, Toast_success
                ''Sale saved offline. It will sync when connection is restored.''),
              (l', fs)))"
    by (simp add: run)
  have c4: "\<not> isOnline l \<longrightarrow> OpenDB \<notin> faults l \<longrightarrow> StoreAdd \<notin> faults l \<longrightarrow>
      sale_id saleRecord \<notin> sale_id ` set (pendingSales l) \<longrightarrow>
        storeSaleOffline sd l =
          (Inr (sale_id saleRecord),
           l\<lparr>db := True, pendingSales := insort_key sale_id saleRecord (pendingSales l)\<rparr>) \<and>
        handleRecordSale f (l, fs) =
          ((None, Toast_success
              ''Sale saved offline. It will sync when connection is restored.''),
           (l\<lparr>db := True, pendingSales := insort_key sale_id saleRecord (pendingSales l)\<rparr>,
            fs)) \<and>
        set (insort_key sale_id saleRecord (pendingSales l)) =
          insert saleRecord (set (pendingSales l)) \<and>
        \<not> synced saleRecord \<and> firestoreSale saleRecord = sd"
  proof (intro impI)
    assume off: "\<not> isOnline l" and f1: "OpenDB \<notin> faults l" and f2: "StoreAdd \<notin> faults l"
      and fresh: "sale_id saleRecord \<notin> sale_id ` set (pendingSales l)"
    have st: "storeSaleOffline sd l =
        (Inr (sale_id saleRecord),
         l\<lparr>db := True, pendingSales := insort_key sale_id saleRecord (pendingSales l)\<rparr>)"
      using f1 f2 assms(3) fresh by (rule storeSaleOffline_ok)
    moreover have "\<not> synced saleRecord" "firestoreSale saleRecord = sd"
      by (simp_all add: assms(3) firestoreSale_def)
    moreover have "set (insort_key sale_id saleRecord (pendingSales l)) =
        insert saleRecord (set (pendingSales l))"
      by (simp add: set_insort_key)
    ultimately show "storeSaleOffline sd l =
          (Inr (sale_id saleRecord),
           l\<lparr>db := True, pendingSales := insort_key sale_id saleRecord (pendingSales l)\<rparr>) \<and>
        handleRecordSale f (l, fs) =
          ((None, Toast_success
              ''Sale saved offline. It will sync when connection is restored.''),
           (l\<lparr>db := True, pendingSales := insort_key sale_id saleRecord (pendingSales l)\<rparr>,
            fs)) \<and>
        set (insort_key sale_id saleRecord (pendingSales l)) =
          insert saleRecord (set (pendingSales l)) \<and>
        \<not> synced saleRecord \<and> firestoreSale saleRecord = sd"
      using off by (simp add: run)
  qed
  from c0 c1 c2 c3 c4 show ?thesis
    by blast
qed

theorem handleRecordSale_paths_witness:
  "valid_form (scenario_form ''100'' (Fin 100) (Fin (1 / 4))) ''biz1'' (Fin 100) (Fin 1) \<and>
   \<not> isOnline scenario_local \<and>
   OpenDB \<notin> faults scenario_local \<and> StoreAdd \<notin> faults scenario_local \<and>
   sale_id frozen_sale \<notin> sale_id ` set (pendingSales scenario_local) \<and>
   storeSaleOffline (firestoreSale frozen_sale) scenario_local =
     (Inr ''offline-1000-0.25'', scenario_local\<lparr>db := True, pendingSales := [frozen_sale]\<rparr>) \<and>
   handleRecordSale (scenario_form ''100'' (Fin 100) (Fin (1 / 4)))
       (scenario_local, scenario_firestore (Fin (1 / 4))) =
     ((None, Toast_success ''Sale saved offline. It will sync when connection is restored.''),
      (scenario_local\<lparr>db := True, pendingSales := [frozen_sale]\<rparr>,
       scenario_firestore (Fin (1 / 4)))) \<and>
   \<not> synced frozen_sale \<and>
   isOnline (scenario_local\<lparr>onLine := True\<rparr>) \<and>
   fs_faults (scenario_firestore (Fin (1 / 4))) = {} \<and>
   map_of (businesses (scenario_firestore (Fin (1 / 4)))) ''biz1'' =
     Some \<lparr>rraVatRate = Some (Fin (1 / 4))\<rparr> \<and>
   handleRecordSale (scenario_form ''100'' (Fin 100) (Fin (1 / 4)))
       (scenario_local\<lparr>onLine := True\<rparr>, scenario_firestore (Fin (1 / 4))) =
     ((None, Toast_success ''Sale recorded successfully''),
      (scenario_local\<lparr>onLine := True\<rparr>,
       (scenario_firestore (Fin (1 / 4)))
         \<lparr>sales :=
            [\<lparr>doc_businessId = ''biz1'', doc_recordedByUserId = ''agent7'',
              doc_createdAt = 2000,
              doc_items = [\<lparr>productId = ''manual-1000'', productName = lit ''Soap'',
                             quantity = Fin 1, pricePerItem = Fin 100\<rparr>],
              doc_paymentMethod = lit ''Cash'',
              doc_subtotal = Fin 100, doc_vatAmount = Fin 25, doc_total = Fin 125\<rparr>]\<rparr>))"
proof -
  let ?F = "scenario_form ''100'' (Fin 100) (Fin (1 / 4))"
  let ?FS = "scenario_firestore (Fin (1 / 4))"
  let ?on = "scenario_local\<lparr>onLine := True\<rparr>"
  let ?biz = "\<lparr>rraVatRate = Some (Fin (1 / 4))\<rparr>"
  have v: "valid_form ?F ''biz1'' (Fin 100) (Fin 1)"
    by (rule valid_100)
  have ev: "fl 25 = Fin 25" "fl 125 = Fin 125"
    "toFixed2 (Fin 25) = Fin 25" "toFixed2 (Fin 125) = Fin 125"
    by code_simp+
  have rt: "rate_or_default ?biz = Fin (1 / 4)"
    by (simp add: rate_or_default_def truthy_number_def)
  have fx: "form_vatRate ?F = Fin (1 / 4)" "form_uid ?F = ''agent7''"
    "form_productName ?F = lit ''Soap''" "form_paymentMethod ?F = lit ''Cash''"
    "lit ''Cash'' \<noteq> lit ''Custom''"
    by (simp_all add: scenario_form_def lit_def)
  have lc: "clock scenario_local = 1000" "random scenario_local = ''0.25''"
    "pendingSales scenario_local = []" "faults scenario_local = {}"
    "\<not> isOnline scenario_local" "isOnline ?on" "clock ?on = 1000"
    by (simp_all add: scenario_local_def isOnline_def)
  have fsx: "fs_faults ?FS = {}" "map_of (businesses ?FS) ''biz1'' = Some ?biz"
    "fs_clock ?FS = 2000" "sales ?FS = []"
    by (simp_all add: scenario_firestore_def)
  have off: "storeSaleOffline (firestoreSale frozen_sale) scenario_local =
      (Inr ''offline-1000-0.25'', scenario_local\<lparr>db := True, pendingSales := [frozen_sale]\<rparr>) \<and>
    handleRecordSale ?F (scenario_local, ?FS) =
      ((None, Toast_success ''Sale saved offline. It will sync when connection is restored.''),
       (scenario_local\<lparr>db := True, pendingSales := [frozen_sale]\<rparr>, ?FS))"
    using handleRecordSale_paths [OF v refl refl refl, of scenario_local ?FS ?biz,
        THEN conjunct2, THEN conjunct2, THEN conjunct2, THEN conjunct2]
    by (simp add: lc fx ev double_100 double_0 decimal_1000 trim_Soap frozen_sale_def
          scenario_sale_def firestoreSale_def)
  have on: "handleRecordSale ?F (?on, ?FS) =
      ((None, Toast_success ''Sale recorded successfully''),
       (?on, ?FS\<lparr>sales :=
            [\<lparr>doc_businessId = ''biz1'', doc_recordedByUserId = ''agent7'',
              doc_createdAt = 2000,
              doc_items = [\<lparr>productId = ''manual-1000'', productName = lit ''Soap'',
                             quantity = Fin 1, pricePerItem = Fin 100\<rparr>],
              doc_paymentMethod = lit ''Cash'',
              doc_subtotal = Fin 100, doc_vatAmount = Fin 25, doc_total = Fin 125\<rparr>]\<rparr>))"
    using handleRecordSale_paths [OF v refl refl refl, of ?on ?FS ?biz,
        THEN conjunct2, THEN conjunct2, THEN conjunct1]
    by (simp add: lc fx fsx ev double_100 double_0 rt decimal_1000 trim_Soap)
  have rest: "\<not> synced frozen_sale"
    "sale_id frozen_sale \<notin> sale_id ` set (pendingSales scenario_local)"
    by (simp_all add: frozen_sale_def scenario_sale_def lc)
  from v off on rest lc fsx show ?thesis
    by simp
qed


end
